theory Spec2Isabelle
  imports Main
begin

section \<open>The declarations of models.py\<close>

text \<open>
  models.py declares two mapped classes, \<open>User\<close> and \<open>Chat\<close>, and nothing else: every
  line is a call of \<open>Column\<close>, \<open>ForeignKey\<close> or \<open>relationship\<close> with literal arguments.
  The embedding keeps the declarations as data. Each constructor takes the positional
  arguments of the source; a keyword argument of the source is a record update, and a
  keyword the source does not pass keeps the constructor's default (\<open>None\<close>: not given).
\<close>

text \<open>
  The column types the module imports. A type class passed uninstantiated, as in
  \<open>Column(String)\<close> and \<open>Column(Text)\<close>, is instantiated without arguments, so its
  length is \<open>None\<close>.
\<close>

datatype sqltype = Integer | String "nat option" | Text "nat option"

record foreign_key =
  fk_target :: string
  ondelete :: "string option"

definition ForeignKey :: "string \<Rightarrow> foreign_key" where
  "ForeignKey target = \<lparr>fk_target = target, ondelete = None\<rparr>"

record column =
  col_type :: sqltype
  col_foreign_key :: "foreign_key option"
  primary_key :: bool
  unique :: "bool option"
  index :: "bool option"
  nullable :: "bool option"

definition Column :: "sqltype \<Rightarrow> foreign_key option \<Rightarrow> column" where
  "Column ty fk =
     \<lparr>col_type = ty, col_foreign_key = fk, primary_key = False,
      unique = None, index = None, nullable = None\<rparr>"

record relationship_property =
  argument :: string
  back_populates :: "string option"
  cascade :: "string option"

definition relationship :: "string \<Rightarrow> relationship_property" where
  "relationship cls = \<lparr>argument = cls, back_populates = None, cascade = None\<rparr>"

text \<open>
  A mapped class: its name, its \<open>__tablename__\<close>, and its attributes in the order of the
  class body, columns and relationships apart.
\<close>

record model =
  class_name :: string
  tablename :: string
  columns :: "(string \<times> column) list"
  relationships :: "(string \<times> relationship_property) list"

definition User :: model where
  "User =
     \<lparr>class_name = ''User'',
      tablename = ''users'',
      columns =
        [(''id'', (Column Integer None)\<lparr>primary_key := True, index := Some True\<rparr>),
         (''username'', (Column (String None) None)\<lparr>unique := Some True, index := Some True\<rparr>),
         (''email'', (Column (String None) None)\<lparr>unique := Some True, index := Some True\<rparr>),
         (''hashed_password'', Column (String None) None)],
      relationships =
        [(''chats'', (relationship ''Chat'')\<lparr>back_populates := Some ''owner''\<rparr>)]\<rparr>"

definition Chat :: model where
  "Chat =
     \<lparr>class_name = ''Chat'',
      tablename = ''chats'',
      columns =
        [(''id'', (Column Integer None)\<lparr>primary_key := True, index := Some True\<rparr>),
         (''owner_id'', Column Integer (Some (ForeignKey ''users.id''))),
         (''message'', Column (Text None) None)],
      relationships =
        [(''owner'', (relationship ''User'')\<lparr>back_populates := Some ''chats''\<rparr>)]\<rparr>"

text \<open>The classes that subclass \<open>Base\<close>, in the order the module declares them.\<close>

definition Base :: "model list" where
  "Base = [User, Chat]"

section \<open>What the declarations mean for stored rows\<close>

text \<open>
  models.py has no operation of its own: rows are stored, constrained and read back by
  the persistence layer the declarations are written for (SQLAlchemy over a relational
  database). The definitions of this section give each declared attribute the meaning
  that layer gives it, for any list of mapped classes; nothing in them mentions \<open>User\<close>
  or \<open>Chat\<close>. They take the constraints as enforced, and NULL as SQL does: a primary key
  column has a value in every row, any other column is nullable unless declared
  otherwise, and a uniqueness or foreign key constraint binds only the values that are
  present.

  A stored value is an integer or a string; an absent value (NULL) is \<open>None\<close>. A row
  maps attribute names to values, and a database state gives each table name its rows.
\<close>

datatype val = IntV int | StrV string

type_synonym row = "string \<rightharpoonup> val"

type_synonym db = "string \<Rightarrow> row list"

fun fits :: "nat option \<Rightarrow> string \<Rightarrow> bool" where
  "fits None s = True"
| "fits (Some n) s = (length s \<le> n)"

fun has_type :: "sqltype \<Rightarrow> val \<Rightarrow> bool" where
  "has_type Integer (IntV i) = True"
| "has_type (String len) (StrV s) = fits len s"
| "has_type (Text len) (StrV s) = fits len s"
| "has_type _ _ = False"

text \<open>
  A column whose \<open>nullable\<close> is not given accepts NULL unless it is part of the primary
  key.
\<close>

definition is_nullable :: "column \<Rightarrow> bool" where
  "is_nullable c = (case nullable c of Some b \<Rightarrow> b | None \<Rightarrow> \<not> primary_key c)"

definition col_ok :: "column \<Rightarrow> val option \<Rightarrow> bool" where
  "col_ok c v = (case v of None \<Rightarrow> is_nullable c | Some x \<Rightarrow> has_type (col_type c) x)"

text \<open>A row of a class has a fitting value for each column, and no other attribute.\<close>

definition row_ok :: "model \<Rightarrow> row \<Rightarrow> bool" where
  "row_ok m r =
     (list_all (\<lambda>(n, c). col_ok c (r n)) (columns m) \<and> dom r \<subseteq> set (map fst (columns m)))"

definition pk_names :: "model \<Rightarrow> string list" where
  "pk_names m = map fst (filter (\<lambda>(n, c). primary_key c) (columns m))"

text \<open>No two rows of a table agree on the primary key.\<close>

definition pk_ok :: "model \<Rightarrow> row list \<Rightarrow> bool" where
  "pk_ok m rows = distinct (map (\<lambda>r. map r (pk_names m)) rows)"

text \<open>
  A unique column holds no value twice. NULL is no value: a uniqueness constraint
  compares the rows that have one.
\<close>

definition unique_values :: "string \<Rightarrow> row list \<Rightarrow> bool" where
  "unique_values n rows = distinct (filter (\<lambda>v. v \<noteq> None) (map (\<lambda>r. r n) rows))"

definition unique_ok :: "model \<Rightarrow> row list \<Rightarrow> bool" where
  "unique_ok m rows =
     list_all (\<lambda>(n, c). unique c \<noteq> Some True \<or> unique_values n rows) (columns m)"

text \<open>The target of a foreign key is written \<open>table.column\<close>.\<close>

definition fk_table :: "string \<Rightarrow> string" where
  "fk_table target = takeWhile (\<lambda>ch. ch \<noteq> CHR ''.'') target"

definition fk_column :: "string \<Rightarrow> string" where
  "fk_column target = drop 1 (dropWhile (\<lambda>ch. ch \<noteq> CHR ''.'') target)"

text \<open>
  A foreign key column holds NULL or a value that some row of the target table has in
  the target column.
\<close>

definition references :: "db \<Rightarrow> foreign_key \<Rightarrow> val option \<Rightarrow> bool" where
  "references d fk v =
     (case v of
        None \<Rightarrow> True
      | Some x \<Rightarrow>
          Some x \<in> set (map (\<lambda>r'. r' (fk_column (fk_target fk))) (d (fk_table (fk_target fk)))))"

definition fk_ok :: "db \<Rightarrow> model \<Rightarrow> row list \<Rightarrow> bool" where
  "fk_ok d m rows =
     list_all
       (\<lambda>(n, c). case col_foreign_key c of
                    None \<Rightarrow> True
                  | Some fk \<Rightarrow> list_all (\<lambda>r. references d fk (r n)) rows)
       (columns m)"

definition table_ok :: "db \<Rightarrow> model \<Rightarrow> bool" where
  "table_ok d m =
     (list_all (row_ok m) (d (tablename m)) \<and> pk_ok m (d (tablename m)) \<and>
      unique_ok m (d (tablename m)) \<and> fk_ok d m (d (tablename m)))"

text \<open>A valid state: every table of every declared class meets its constraints.\<close>

definition valid_db :: "model list \<Rightarrow> db \<Rightarrow> bool" where
  "valid_db ms d = list_all (table_ok d) ms"

subsection \<open>Reading a relationship\<close>

text \<open>
  A relationship names the class at its other end; the rows it yields are found through
  the foreign key between the two tables. When the class that declares the relationship
  holds the foreign key, the relationship is many-to-one and reads as a single row (or
  none); when the other class holds it, the relationship is one-to-many and reads as a
  collection. NULL matches nothing.
\<close>

definition find_model :: "model list \<Rightarrow> string \<Rightarrow> model option" where
  "find_model ms cls = find (\<lambda>m. class_name m = cls) ms"

definition fks_to :: "model \<Rightarrow> model \<Rightarrow> (string \<times> string) list" where
  "fks_to a b =
     concat (map (\<lambda>(n, c). case col_foreign_key c of
                             None \<Rightarrow> []
                           | Some fk \<Rightarrow>
                               if fk_table (fk_target fk) = tablename b
                               then [(n, fk_column (fk_target fk))] else [])
                 (columns a))"

datatype direction = MANYTOONE | ONETOMANY

text \<open>
  The direction of a relationship from \<open>a\<close> to \<open>b\<close>, with the column of \<open>a\<close> and the column
  of \<open>b\<close> it compares. Without exactly one foreign key between the tables there is none.
\<close>

definition join_condition :: "model \<Rightarrow> model \<Rightarrow> (direction \<times> string \<times> string) option" where
  "join_condition a b =
     (case (fks_to a b, fks_to b a) of
        ([(l, r)], []) \<Rightarrow> Some (MANYTOONE, l, r)
      | ([], [(l, r)]) \<Rightarrow> Some (ONETOMANY, r, l)
      | _ \<Rightarrow> None)"

definition related :: "model list \<Rightarrow> db \<Rightarrow> model \<Rightarrow> string \<Rightarrow> row \<Rightarrow> (direction \<times> row list) option" where
  "related ms d a attr r =
     (case map_of (relationships a) attr of
        None \<Rightarrow> None
      | Some rel \<Rightarrow>
          (case find_model ms (argument rel) of
             None \<Rightarrow> None
           | Some b \<Rightarrow>
               (case join_condition a b of
                  None \<Rightarrow> None
                | Some (dir, l, rc) \<Rightarrow>
                    Some (dir, filter (\<lambda>r'. r l \<noteq> None \<and> r' rc = r l) (d (tablename b))))))"

text \<open>\<open>Chat.owner\<close>: the row the relationship yields, if any.\<close>

definition owner :: "db \<Rightarrow> row \<Rightarrow> row option" where
  "owner d c =
     (case related Base d Chat ''owner'' c of
        Some (MANYTOONE, u # us) \<Rightarrow> Some u
      | _ \<Rightarrow> None)"

text \<open>\<open>User.chats\<close>: the collection the relationship yields.\<close>

definition chats :: "db \<Rightarrow> row \<Rightarrow> row list" where
  "chats d u =
     (case related Base d User ''chats'' u of
        Some (ONETOMANY, cs) \<Rightarrow> cs
      | _ \<Rightarrow> [])"

text \<open>
  Whether the values of a column are kept apart by a constraint: the column is declared
  unique, or it is the whole primary key.
\<close>

definition is_unique :: "model \<Rightarrow> string \<Rightarrow> bool" where
  "is_unique m n =
     (case map_of (columns m) n of
        None \<Rightarrow> False
      | Some c \<Rightarrow> unique c = Some True \<or> pk_names m = [n])"

definition is_indexed :: "model \<Rightarrow> string \<Rightarrow> bool" where
  "is_indexed m n =
     (case map_of (columns m) n of None \<Rightarrow> False | Some c \<Rightarrow> index c = Some True)"

text \<open>The class and column a foreign key points at, among the declared classes.\<close>

definition resolve_fk :: "model list \<Rightarrow> foreign_key \<Rightarrow> (model \<times> string) option" where
  "resolve_fk ms fk =
     (case find (\<lambda>m. tablename m = fk_table (fk_target fk)) ms of
        None \<Rightarrow> None
      | Some m \<Rightarrow>
          if fk_column (fk_target fk) \<in> set (map fst (columns m))
          then Some (m, fk_column (fk_target fk)) else None)"

subsection \<open>Concrete states\<close>

definition no_rows :: db where
  "no_rows = (\<lambda>t. [])"

text \<open>The state of the specification's example: one user, alice, and one chat of hers.\<close>

definition alice :: row where
  "alice = [''id'' \<mapsto> IntV 1, ''username'' \<mapsto> StrV ''alice'', ''email'' \<mapsto> StrV ''a@x.com'',
            ''hashed_password'' \<mapsto> StrV ''h1'']"

definition hello :: row where
  "hello = [''id'' \<mapsto> IntV 1, ''owner_id'' \<mapsto> IntV 1, ''message'' \<mapsto> StrV ''hello'']"

definition alice_db :: db where
  "alice_db = no_rows(''users'' := [alice], ''chats'' := [hello])"

text \<open>A state with no user and one chat whose \<open>owner_id\<close> is absent.\<close>

definition orphan :: row where
  "orphan = [''id'' \<mapsto> IntV 1, ''message'' \<mapsto> StrV ''hello'']"

definition orphan_db :: db where
  "orphan_db = no_rows(''chats'' := [orphan])"

text \<open>A state with two users that have an \<open>id\<close> and nothing else.\<close>

definition anon1 :: row where
  "anon1 = [''id'' \<mapsto> IntV 1]"

definition anon2 :: row where
  "anon2 = [''id'' \<mapsto> IntV 2]"

definition anon_db :: db where
  "anon_db = no_rows(''users'' := [anon1, anon2])"

text \<open>A state with two users that differ in every attribute.\<close>

definition bob :: row where
  "bob = [''id'' \<mapsto> IntV 2, ''username'' \<mapsto> StrV ''bob'', ''email'' \<mapsto> StrV ''b@x.com'',
          ''hashed_password'' \<mapsto> StrV ''h2'']"

definition pair_db :: db where
  "pair_db = no_rows(''users'' := [alice, bob])"

text \<open>A state with one chat, of no owner, whose message is \<open>s\<close>.\<close>

definition message_db :: "string \<Rightarrow> db" where
  "message_db s = no_rows(''chats'' := [[''id'' \<mapsto> IntV 1, ''message'' \<mapsto> StrV s]])"

section \<open>The declarations, read out\<close>

text \<open>
  The facts below unfold the generic definitions once at \<open>User\<close> and \<open>Chat\<close>, so that
  the proofs of the properties need not unfold them again.
\<close>

lemma fk_users_id: "fk_table ''users.id'' = ''users''" "fk_column ''users.id'' = ''id''"
  by (simp_all add: fk_table_def fk_column_def)

lemma User_fields:
  "class_name User = ''User''" "tablename User = ''users''"
  "map_of (relationships User) ''chats'' = Some ((relationship ''Chat'')\<lparr>back_populates := Some ''owner''\<rparr>)"
  by (simp_all add: User_def)

lemma Chat_fields:
  "class_name Chat = ''Chat''" "tablename Chat = ''chats''"
  "map_of (relationships Chat) ''owner'' = Some ((relationship ''User'')\<lparr>back_populates := Some ''chats''\<rparr>)"
  by (simp_all add: Chat_def)

lemma fks_Chat_User: "fks_to Chat User = [(''owner_id'', ''id'')]"
  by (simp add: fks_to_def Chat_def User_def Column_def ForeignKey_def fk_users_id)

lemma fks_User_Chat: "fks_to User Chat = []"
  by (simp add: fks_to_def Chat_def User_def Column_def ForeignKey_def)

lemma related_owner:
  "related Base d Chat ''owner'' c =
     Some (MANYTOONE, filter (\<lambda>u. c ''owner_id'' \<noteq> None \<and> u ''id'' = c ''owner_id'') (d ''users''))"
  by (simp add: related_def join_condition_def fks_Chat_User fks_User_Chat find_model_def Base_def
      User_fields Chat_fields relationship_def)

lemma related_chats:
  "related Base d User ''chats'' u =
     Some (ONETOMANY, filter (\<lambda>c. u ''id'' \<noteq> None \<and> c ''owner_id'' = u ''id'') (d ''chats''))"
  by (simp add: related_def join_condition_def fks_Chat_User fks_User_Chat find_model_def Base_def
      User_fields Chat_fields relationship_def)

lemma find_filter: "find P xs = (case filter P xs of [] \<Rightarrow> None | x # _ \<Rightarrow> Some x)"
  by (induction xs) auto

lemma owner_eq:
  "owner d c = find (\<lambda>u. c ''owner_id'' \<noteq> None \<and> u ''id'' = c ''owner_id'') (d ''users'')"
  by (simp add: owner_def related_owner find_filter split: list.splits)

lemma chats_eq:
  "chats d u = filter (\<lambda>c. u ''id'' \<noteq> None \<and> c ''owner_id'' = u ''id'') (d ''chats'')"
  by (simp add: chats_def related_chats)

lemma User_columns:
  "columns User =
    [(''id'', (Column Integer None)\<lparr>primary_key := True, index := Some True\<rparr>),
     (''username'', (Column (String None) None)\<lparr>unique := Some True, index := Some True\<rparr>),
     (''email'', (Column (String None) None)\<lparr>unique := Some True, index := Some True\<rparr>),
     (''hashed_password'', Column (String None) None)]"
  by (simp add: User_def)

lemma Chat_columns:
  "columns Chat =
    [(''id'', (Column Integer None)\<lparr>primary_key := True, index := Some True\<rparr>),
     (''owner_id'', Column Integer (Some (ForeignKey ''users.id''))),
     (''message'', Column (Text None) None)]"
  by (simp add: Chat_def)

lemma distinct_map_singleton: "distinct (map (\<lambda>r. [f r]) xs) = distinct (map f xs)"
  by (simp add: distinct_map inj_on_def)

lemma table_ok_User:
  "table_ok d User \<longleftrightarrow>
     list_all (row_ok User) (d ''users'') \<and>
     distinct (map (\<lambda>r. r ''id'') (d ''users'')) \<and>
     unique_values ''username'' (d ''users'') \<and>
     unique_values ''email'' (d ''users'')"
  by (simp add: table_ok_def pk_ok_def unique_ok_def fk_ok_def pk_names_def User_fields
      User_columns Column_def distinct_map_singleton)

lemma references_users_id:
  "references d (ForeignKey ''users.id'') v \<longleftrightarrow>
     v = None \<or> v \<in> set (map (\<lambda>u. u ''id'') (d ''users''))"
  by (cases v) (simp_all add: references_def ForeignKey_def fk_users_id)

lemma table_ok_Chat:
  "table_ok d Chat \<longleftrightarrow>
     list_all (row_ok Chat) (d ''chats'') \<and>
     distinct (map (\<lambda>r. r ''id'') (d ''chats'')) \<and>
     list_all (\<lambda>c. c ''owner_id'' = None \<or> c ''owner_id'' \<in> set (map (\<lambda>u. u ''id'') (d ''users''))) (d ''chats'')"
  by (simp add: table_ok_def pk_ok_def unique_ok_def fk_ok_def pk_names_def Chat_fields
      Chat_columns Column_def distinct_map_singleton references_users_id)

lemma valid_db_Base:
  "valid_db Base d \<longleftrightarrow> table_ok d User \<and> table_ok d Chat"
  by (simp add: valid_db_def Base_def)

section \<open>Valid states\<close>

lemma unique_values_inj:
  assumes "unique_values n rows" and "u \<in> set rows" and "v \<in> set rows"
    and "u n = v n" and "u n \<noteq> None"
  shows "u = v"
proof -
  have "inj_on (\<lambda>r. r n) {r \<in> set rows. r n \<noteq> None}"
    using assms(1) by (simp add: unique_values_def filter_map distinct_map comp_def)
  moreover have "u \<in> {r \<in> set rows. r n \<noteq> None}" and "v \<in> {r \<in> set rows. r n \<noteq> None}"
    using assms(2-5) by simp_all
  ultimately show ?thesis
    using assms(4) by (blast dest: inj_onD)
qed

lemma distinct_ids_inj:
  "distinct (map (\<lambda>r. r n) rows) \<Longrightarrow> u \<in> set rows \<Longrightarrow> v \<in> set rows \<Longrightarrow> u n = v n \<Longrightarrow> u = v"
  by (auto simp: distinct_map inj_on_def)

lemma row_ok_User_id: "row_ok User r \<Longrightarrow> r ''id'' \<noteq> None"
  by (auto simp: row_ok_def User_columns col_ok_def is_nullable_def Column_def)

lemma valid_users:
  assumes "valid_db Base d"
  shows "distinct (map (\<lambda>r. r ''id'') (d ''users''))"
    and "unique_values ''username'' (d ''users'')"
    and "unique_values ''email'' (d ''users'')"
    and "u \<in> set (d ''users'') \<Longrightarrow> u ''id'' \<noteq> None"
  using assms by (auto simp: valid_db_Base table_ok_User list_all_iff row_ok_User_id)

lemma valid_chats:
  assumes "valid_db Base d" and "c \<in> set (d ''chats'')"
  shows "c ''owner_id'' = None \<or> c ''owner_id'' \<in> set (map (\<lambda>u. u ''id'') (d ''users''))"
  using assms by (auto simp: valid_db_Base table_ok_Chat list_all_iff)

lemma find_unique:
  assumes "x \<in> set xs" and "P x" and "\<forall>y\<in>set xs. P y \<longrightarrow> y = x"
  shows "find P xs = Some x"
proof -
  have "find P xs \<noteq> None"
    using assms(1,2) by (auto simp: find_None_iff)
  then obtain y where y: "find P xs = Some y" by blast
  then have "y \<in> set xs" and "P y"
    by (auto simp: find_Some_iff)
  with assms(3) have "y = x" by blast
  with y show ?thesis by simp
qed

lemma find_SomeD: "find P xs = Some x \<Longrightarrow> x \<in> set xs \<and> P x"
  by (induction xs) (auto split: if_splits)

lemma owner_iff_chats:
  assumes "valid_db Base d" and "u \<in> set (d ''users'')" and "c \<in> set (d ''chats'')"
  shows "owner d c = Some u \<longleftrightarrow> c \<in> set (chats d u)"
proof
  assume "owner d c = Some u"
  then have "c ''owner_id'' \<noteq> None \<and> u ''id'' = c ''owner_id''"
    by (auto simp: owner_eq dest: find_SomeD)
  with assms(3) show "c \<in> set (chats d u)"
    by (simp add: chats_eq)
next
  assume "c \<in> set (chats d u)"
  then have eq: "u ''id'' \<noteq> None" "c ''owner_id'' = u ''id''"
    by (simp_all add: chats_eq)
  have "find (\<lambda>u. c ''owner_id'' \<noteq> None \<and> u ''id'' = c ''owner_id'') (d ''users'') = Some u"
  proof (rule find_unique)
    show "u \<in> set (d ''users'')" by (rule assms(2))
    show "c ''owner_id'' \<noteq> None \<and> u ''id'' = c ''owner_id''" using eq by simp
    show "\<forall>y\<in>set (d ''users''). c ''owner_id'' \<noteq> None \<and> y ''id'' = c ''owner_id'' \<longrightarrow> y = u"
      using distinct_ids_inj [OF valid_users(1) [OF assms(1)] _ assms(2)] eq by simp
  qed
  then show "owner d c = Some u" by (simp add: owner_eq)
qed

subsection \<open>The concrete states are valid\<close>

lemma alice_ok: "row_ok User alice"
  by (simp add: row_ok_def User_columns col_ok_def is_nullable_def Column_def alice_def)

lemma bob_ok: "row_ok User bob"
  by (simp add: row_ok_def User_columns col_ok_def is_nullable_def Column_def bob_def)

lemma anon_ok: "row_ok User anon1" "row_ok User anon2"
  by (simp_all add: row_ok_def User_columns col_ok_def is_nullable_def Column_def anon1_def anon2_def)

lemma hello_ok: "row_ok Chat hello"
  by (simp add: row_ok_def Chat_columns col_ok_def is_nullable_def Column_def hello_def)

lemma orphan_ok: "row_ok Chat orphan"
  by (simp add: row_ok_def Chat_columns col_ok_def is_nullable_def Column_def orphan_def)

lemma message_ok: "row_ok Chat [''id'' \<mapsto> IntV 1, ''message'' \<mapsto> StrV s]"
  by (simp add: row_ok_def Chat_columns col_ok_def is_nullable_def Column_def)

lemma valid_alice_db: "valid_db Base alice_db"
  by (simp add: valid_db_Base table_ok_User table_ok_Chat alice_db_def no_rows_def
      alice_ok hello_ok unique_values_def)
     (simp add: alice_def hello_def)

lemma valid_orphan_db: "valid_db Base orphan_db"
  by (simp add: valid_db_Base table_ok_User table_ok_Chat orphan_db_def no_rows_def
      orphan_ok unique_values_def)
     (simp add: orphan_def)

lemma valid_anon_db: "valid_db Base anon_db"
  by (simp add: valid_db_Base table_ok_User table_ok_Chat anon_db_def no_rows_def
      anon_ok unique_values_def)
     (simp add: anon1_def anon2_def)

lemma valid_pair_db: "valid_db Base pair_db"
  by (simp add: valid_db_Base table_ok_User table_ok_Chat pair_db_def no_rows_def
      alice_ok bob_ok unique_values_def)
     (simp add: alice_def bob_def)

lemma valid_message_db: "valid_db Base (message_db s)"
  by (simp add: valid_db_Base table_ok_User table_ok_Chat message_db_def no_rows_def
      message_ok unique_values_def)

lemma anon_neq: "anon1 \<noteq> anon2"
proof
  assume "anon1 = anon2"
  then have "anon1 ''id'' = anon2 ''id''" by simp
  then show False by (simp add: anon1_def anon2_def)
qed

lemma alice_neq_bob: "alice \<noteq> bob"
proof
  assume "alice = bob"
  then have "alice ''id'' = bob ''id''" by simp
  then show False by (simp add: alice_def bob_def)
qed

subsection \<open>Uniqueness as declared and as enforced\<close>

text \<open>
  A column that \<open>is_unique\<close> holds no value twice in any valid state, for any list of
  mapped classes.
\<close>

lemma pk_names_User: "pk_names User = [''id'']"
  by (simp add: pk_names_def User_columns Column_def)

lemma pk_names_Chat: "pk_names Chat = [''id'']"
  by (simp add: pk_names_def Chat_columns Column_def)

lemma is_unique_sound:
  assumes "valid_db ms d" and "m \<in> set ms" and "is_unique m n"
  shows "unique_values n (d (tablename m))"
proof -
  from assms(1,2) have t: "table_ok d m"
    by (simp add: valid_db_def list_all_iff)
  from assms(3) obtain c where c: "map_of (columns m) n = Some c"
    and u: "unique c = Some True \<or> pk_names m = [n]"
    by (auto simp: is_unique_def split: option.splits)
  from u show ?thesis
  proof
    assume "unique c = Some True"
    moreover from c have "(n, c) \<in> set (columns m)" by (rule map_of_SomeD)
    moreover from t have "unique_ok m (d (tablename m))" by (simp add: table_ok_def)
    ultimately show ?thesis
      by (auto simp: unique_ok_def list_all_iff)
  next
    assume "pk_names m = [n]"
    moreover from t have "pk_ok m (d (tablename m))" by (simp add: table_ok_def)
    ultimately have "distinct (map (\<lambda>r. r n) (d (tablename m)))"
      by (simp add: pk_ok_def distinct_map_singleton)
    then show ?thesis
      by (simp add: unique_values_def)
  qed
qed

section \<open>Properties of valid states\<close>

text \<open>
  C1, as amended. In a valid state, a chat whose \<open>owner_id\<close> is present holds the \<open>id\<close> of
  an existing user. (A chat whose \<open>owner_id\<close> is absent references no user: the column
  is declared without \<open>nullable=False\<close>.)
\<close>

theorem owner_id_references_user:
  assumes "valid_db Base d" and "c \<in> set (d ''chats'')" and "c ''owner_id'' \<noteq> None"
  shows "c ''owner_id'' \<in> set (map (\<lambda>u. u ''id'') (d ''users''))"
  using valid_chats [OF assms(1,2)] assms(3) by simp

theorem owner_id_references_user_witness:
  "valid_db Base alice_db \<and> hello \<in> set (alice_db ''chats'') \<and> hello ''owner_id'' \<noteq> None \<and>
   hello ''owner_id'' \<in> set (map (\<lambda>u. u ''id'') (alice_db ''users''))"
proof -
  have c: "hello \<in> set (alice_db ''chats'')" by (simp add: alice_db_def)
  have n: "hello ''owner_id'' \<noteq> None" by (simp add: hello_def)
  show ?thesis
    using owner_id_references_user [OF valid_alice_db c n] valid_alice_db c n by simp
qed

text \<open>
  C1 as stated fails: the state with no user and one chat without \<open>owner_id\<close> is valid,
  and the chat's \<open>owner_id\<close> is the \<open>id\<close> of no user.
\<close>

theorem owner_id_dangling_counterexample:
  "valid_db Base orphan_db \<and> orphan \<in> set (orphan_db ''chats'') \<and>
   orphan ''owner_id'' \<notin> set (map (\<lambda>u. u ''id'') (orphan_db ''users''))"
  using valid_orphan_db by (simp add: orphan_db_def no_rows_def)

text \<open>
  C2, as amended. In a valid state, two distinct users that have the same \<open>username\<close> have
  none, and two distinct users that have the same \<open>email\<close> have none: the values that
  are present are unique.
\<close>

theorem username_email_unique:
  assumes "valid_db Base d" and "u \<in> set (d ''users'')" and "v \<in> set (d ''users'')" and "u \<noteq> v"
  shows "(u ''username'' = v ''username'' \<longrightarrow> u ''username'' = None) \<and>
         (u ''email'' = v ''email'' \<longrightarrow> u ''email'' = None)"
proof (intro conjI impI)
  assume eq: "u ''username'' = v ''username''"
  show "u ''username'' = None"
  proof (rule ccontr)
    assume "u ''username'' \<noteq> None"
    with eq have "u = v"
      by (rule unique_values_inj [OF valid_users(2) [OF assms(1)] assms(2,3)])
    with assms(4) show False by simp
  qed
next
  assume eq: "u ''email'' = v ''email''"
  show "u ''email'' = None"
  proof (rule ccontr)
    assume "u ''email'' \<noteq> None"
    with eq have "u = v"
      by (rule unique_values_inj [OF valid_users(3) [OF assms(1)] assms(2,3)])
    with assms(4) show False by simp
  qed
qed

theorem username_email_unique_witness:
  "valid_db Base pair_db \<and> alice \<in> set (pair_db ''users'') \<and> bob \<in> set (pair_db ''users'') \<and>
   alice \<noteq> bob \<and> alice ''username'' \<noteq> None \<and> alice ''email'' \<noteq> None \<and>
   alice ''username'' \<noteq> bob ''username'' \<and> alice ''email'' \<noteq> bob ''email''"
proof -
  have a: "alice \<in> set (pair_db ''users'')" and b: "bob \<in> set (pair_db ''users'')"
    by (simp_all add: pair_db_def)
  have n: "alice ''username'' \<noteq> None" "alice ''email'' \<noteq> None"
    by (simp_all add: alice_def)
  show ?thesis
    using username_email_unique [OF valid_pair_db a b alice_neq_bob] valid_pair_db a b
      alice_neq_bob n
    by blast
qed

text \<open>
  C2 as stated fails: the state with two users that have only an \<open>id\<close> is valid, the two
  rows are distinct, and their \<open>username\<close> and their \<open>email\<close> do not differ.
\<close>

theorem username_email_absent_counterexample:
  "valid_db Base anon_db \<and> anon1 \<in> set (anon_db ''users'') \<and> anon2 \<in> set (anon_db ''users'') \<and>
   anon1 \<noteq> anon2 \<and> anon1 ''username'' = anon2 ''username'' \<and> anon1 ''email'' = anon2 ''email''"
  using valid_anon_db anon_neq by (simp add: anon_db_def anon1_def anon2_def)

text \<open>
  C3, as amended. In a valid state, a chat whose \<open>owner_id\<close> is present is in the \<open>chats\<close>
  of exactly one user, and a chat whose \<open>owner_id\<close> is absent is in the \<open>chats\<close> of none:
  a chat has at most one owner.
\<close>

theorem chat_has_one_owner:
  assumes "valid_db Base d" and "c \<in> set (d ''chats'')"
  shows "(c ''owner_id'' \<noteq> None \<longrightarrow> (\<exists>!u. u \<in> set (d ''users'') \<and> c \<in> set (chats d u))) \<and>
         (c ''owner_id'' = None \<longrightarrow> \<not> (\<exists>u. u \<in> set (d ''users'') \<and> c \<in> set (chats d u)))"
proof (intro conjI impI)
  assume nn: "c ''owner_id'' \<noteq> None"
  then obtain u where u: "u \<in> set (d ''users'')" "u ''id'' = c ''owner_id''"
    using valid_chats [OF assms] by auto
  show "\<exists>!u. u \<in> set (d ''users'') \<and> c \<in> set (chats d u)"
  proof (rule ex1I [of _ u])
    show "u \<in> set (d ''users'') \<and> c \<in> set (chats d u)"
      using u nn assms(2) by (simp add: chats_eq)
    fix v assume "v \<in> set (d ''users'') \<and> c \<in> set (chats d v)"
    then show "v = u"
      using distinct_ids_inj [OF valid_users(1) [OF assms(1)] _ u(1), of v] u(2)
      by (simp add: chats_eq)
  qed
next
  assume "c ''owner_id'' = None"
  then show "\<not> (\<exists>u. u \<in> set (d ''users'') \<and> c \<in> set (chats d u))"
    by (auto simp: chats_eq)
qed

theorem chat_has_one_owner_witness:
  "valid_db Base alice_db \<and> hello \<in> set (alice_db ''chats'') \<and> hello ''owner_id'' \<noteq> None \<and>
   (\<exists>!u. u \<in> set (alice_db ''users'') \<and> hello \<in> set (chats alice_db u))"
proof -
  have c: "hello \<in> set (alice_db ''chats'')" by (simp add: alice_db_def)
  have n: "hello ''owner_id'' \<noteq> None" by (simp add: hello_def)
  show ?thesis
    using chat_has_one_owner [OF valid_alice_db c] valid_alice_db c n by blast
qed

text \<open>
  C3 as stated fails: in the valid state with no user and one chat without \<open>owner_id\<close>,
  the chat has no owner, and no user has it among its chats.
\<close>

theorem chat_without_owner_counterexample:
  "valid_db Base orphan_db \<and> orphan \<in> set (orphan_db ''chats'') \<and>
   owner orphan_db orphan = None \<and>
   filter (\<lambda>u. orphan \<in> set (chats orphan_db u)) (orphan_db ''users'') = []"
  using valid_orphan_db by (simp add: orphan_db_def no_rows_def owner_eq)

text \<open>
  C4. In a valid state, for a user \<open>u\<close> and a chat \<open>c\<close> of the state: when the chat's
  \<open>owner_id\<close> is the user's \<open>id\<close>, reading \<open>Chat.owner\<close> yields \<open>u\<close> and \<open>User.chats\<close> of \<open>u\<close>
  contains \<open>c\<close>; and \<open>c\<close> has owner \<open>u\<close> exactly when \<open>c\<close> is among the chats of \<open>u\<close>.
\<close>

theorem back_reference_round_trip:
  assumes "valid_db Base d" and "u \<in> set (d ''users'')" and "c \<in> set (d ''chats'')"
  shows "(c ''owner_id'' = u ''id'' \<longrightarrow> owner d c = Some u \<and> c \<in> set (chats d u)) \<and>
         (owner d c = Some u \<longleftrightarrow> c \<in> set (chats d u))"
proof -
  have iff: "owner d c = Some u \<longleftrightarrow> c \<in> set (chats d u)"
    by (rule owner_iff_chats [OF assms])
  have "c ''owner_id'' = u ''id'' \<longrightarrow> c \<in> set (chats d u)"
    using valid_users(4) [OF assms(1,2)] assms(3) by (simp add: chats_eq)
  with iff show ?thesis by simp
qed

theorem back_reference_round_trip_witness:
  "valid_db Base alice_db \<and> alice \<in> set (alice_db ''users'') \<and> hello \<in> set (alice_db ''chats'') \<and>
   hello ''owner_id'' = alice ''id'' \<and> owner alice_db hello = Some alice \<and>
   hello \<in> set (chats alice_db alice) \<and> alice ''username'' = Some (StrV ''alice'')"
proof -
  have u: "alice \<in> set (alice_db ''users'')" and c: "hello \<in> set (alice_db ''chats'')"
    by (simp_all add: alice_db_def)
  have e: "hello ''owner_id'' = alice ''id''" by (simp add: hello_def alice_def)
  have n: "alice ''username'' = Some (StrV ''alice'')" by (simp add: alice_def)
  show ?thesis
    using back_reference_round_trip [OF valid_alice_db u c] valid_alice_db u c e n by blast
qed

section \<open>Properties of the declarations\<close>

text \<open>
  C5. \<open>User\<close> declares exactly the four columns \<open>id\<close>, \<open>username\<close>, \<open>email\<close> and
  \<open>hashed_password\<close>: \<open>id\<close> is an integer and the primary key, the other three are
  strings; \<open>id\<close>, \<open>username\<close> and \<open>email\<close> are unique and indexed, \<open>hashed_password\<close> is
  neither; no column is a foreign key. Its one relationship, \<open>chats\<close>, leads to \<open>Chat\<close>,
  is the back-reference of \<open>owner\<close>, and reads as a collection (one-to-many).
\<close>

theorem User_declaration:
  "map fst (columns User) = [''id'', ''username'', ''email'', ''hashed_password''] \<and>
   map (\<lambda>(n, c). col_type c) (columns User) = [Integer, String None, String None, String None] \<and>
   pk_names User = [''id''] \<and>
   filter (is_unique User) (map fst (columns User)) = [''id'', ''username'', ''email''] \<and>
   filter (is_indexed User) (map fst (columns User)) = [''id'', ''username'', ''email''] \<and>
   map (\<lambda>(n, c). col_foreign_key c) (columns User) = [None, None, None, None] \<and>
   map (\<lambda>(n, r). (n, argument r, back_populates r)) (relationships User) =
     [(''chats'', ''Chat'', Some ''owner'')] \<and>
   join_condition User Chat = Some (ONETOMANY, ''id'', ''owner_id'')"
  by (simp add: pk_names_User is_unique_def is_indexed_def User_columns Column_def
      join_condition_def fks_Chat_User fks_User_Chat)
     (simp add: User_def relationship_def)

text \<open>
  C6. \<open>Chat\<close> declares exactly the three columns \<open>id\<close> (an integer, the primary key,
  unique and indexed), \<open>owner_id\<close> (an integer, a foreign key that resolves to the column
  \<open>id\<close> of \<open>User\<close>) and \<open>message\<close> (a text). Its one relationship, \<open>owner\<close>, leads to
  \<open>User\<close>, is the back-reference of \<open>chats\<close>, and reads as a single row (many-to-one).
\<close>

theorem Chat_declaration:
  "map fst (columns Chat) = [''id'', ''owner_id'', ''message''] \<and>
   map (\<lambda>(n, c). col_type c) (columns Chat) = [Integer, Integer, Text None] \<and>
   pk_names Chat = [''id''] \<and>
   filter (is_unique Chat) (map fst (columns Chat)) = [''id''] \<and>
   filter (is_indexed Chat) (map fst (columns Chat)) = [''id''] \<and>
   map (\<lambda>(n, c). map_option (resolve_fk Base) (col_foreign_key c)) (columns Chat) =
     [None, Some (Some (User, ''id'')), None] \<and>
   map (\<lambda>(n, r). (n, argument r, back_populates r)) (relationships Chat) =
     [(''owner'', ''User'', Some ''chats'')] \<and>
   join_condition Chat User = Some (MANYTOONE, ''owner_id'', ''id'')"
  by (simp add: pk_names_Chat is_unique_def is_indexed_def Chat_columns Column_def
      join_condition_def fks_Chat_User fks_User_Chat resolve_fk_def Base_def User_fields
      ForeignKey_def fk_users_id User_columns)
     (simp add: Chat_def relationship_def)

text \<open>
  C7. The column \<open>message\<close> of \<open>Chat\<close> is a text with no length, and for every string \<open>s\<close>
  there is a valid state with a chat whose message is \<open>s\<close>.
\<close>

theorem message_unbounded:
  "map_option col_type (map_of (columns Chat) ''message'') = Some (Text None) \<and>
   valid_db Base (message_db s) \<and>
   list_ex (\<lambda>c. c ''message'' = Some (StrV s)) (message_db s ''chats'')"
  using valid_message_db [of s]
  by (simp add: Chat_columns Column_def message_db_def)

theorem message_unbounded_witness:
  "valid_db Base (message_db (replicate 100000 (CHR ''x''))) \<and>
   list_ex (\<lambda>c. c ''message'' = Some (StrV (replicate 100000 (CHR ''x''))))
     (message_db (replicate 100000 (CHR ''x'')) ''chats'')"
  using message_unbounded [of "replicate 100000 (CHR ''x'')"] by simp

text \<open>
  C8. No on-delete policy is declared: the one foreign key, \<open>owner_id\<close> of \<open>Chat\<close>, is given
  no \<open>ondelete\<close>, and neither relationship is given a \<open>cascade\<close>.
\<close>

theorem no_on_delete_policy:
  "map (\<lambda>(n, c). map_option ondelete (col_foreign_key c)) (columns Chat) = [None, Some None, None] \<and>
   map (\<lambda>(n, c). map_option ondelete (col_foreign_key c)) (columns User) = [None, None, None, None] \<and>
   map (\<lambda>(n, r). cascade r) (relationships User) = [None] \<and>
   map (\<lambda>(n, r). cascade r) (relationships Chat) = [None]"
  by (simp add: Chat_columns User_columns Column_def ForeignKey_def)
     (simp add: User_def Chat_def relationship_def)

text \<open>
  C9. The column \<open>owner_id\<close> of \<open>Chat\<close> is given no \<open>nullable\<close> and so accepts an absent
  value; the state with no user and one chat without \<open>owner_id\<close> is valid, and that chat
  has no owner.
\<close>

theorem owner_id_may_be_absent:
  "map_option nullable (map_of (columns Chat) ''owner_id'') = Some None \<and>
   map_option is_nullable (map_of (columns Chat) ''owner_id'') = Some True \<and>
   valid_db Base orphan_db \<and> orphan_db ''chats'' = [orphan] \<and>
   orphan ''owner_id'' = None \<and> owner orphan_db orphan = None"
  using valid_orphan_db
  by (simp add: Chat_columns Column_def is_nullable_def orphan_db_def orphan_def owner_eq no_rows_def)

text \<open>
  C10. No column of \<open>User\<close> is given \<open>nullable\<close>, so every column but the primary key
  accepts an absent value; the state with two users that have neither \<open>username\<close> nor
  \<open>email\<close> nor \<open>hashed_password\<close> is valid.
\<close>

theorem user_attributes_may_be_absent:
  "map (\<lambda>(n, c). (n, nullable c, is_nullable c)) (columns User) =
     [(''id'', None, False), (''username'', None, True), (''email'', None, True),
      (''hashed_password'', None, True)] \<and>
   valid_db Base anon_db \<and> anon_db ''users'' = [anon1, anon2] \<and>
   map (\<lambda>u. (u ''username'', u ''email'', u ''hashed_password'')) (anon_db ''users'') =
     [(None, None, None), (None, None, None)]"
  using valid_anon_db
  by (simp add: User_columns Column_def is_nullable_def anon_db_def anon1_def anon2_def)

end
